theory Spec2Isabelle
  imports Main
begin

section \<open>Values: dates, identifiers, status\<close>

text \<open>
  A \<open>Date\<close> is the number of milliseconds since the epoch. The services obtain dates
  only by \<^verbatim>\<open>new Date()\<close>, which reads the wall clock; every such read is an
  argument of the model (\<open>now1\<close>, \<open>now2\<close>, in the order the source takes them), since
  two reads in one call need not return the same value.
\<close>

type_synonym Date = int

text \<open>
  An \<open>ObjectId\<close> is twelve bytes, kept here as its canonical lower-case hexadecimal
  string of 24 characters. \<^verbatim>\<open>ObjectId.isValid(id)\<close> accepts the strings of 24
  hexadecimal digits, and \<^verbatim>\<open>new ObjectId(id)\<close> reads the digits without regard to
  their case.
\<close>

type_synonym ObjectId = string

definition toLowerCase :: "char \<Rightarrow> char" where
  "toLowerCase c =
     (case map_of (zip ''ABCDEFGHIJKLMNOPQRSTUVWXYZ'' ''abcdefghijklmnopqrstuvwxyz'') c of
        Some l \<Rightarrow> l
      | None \<Rightarrow> c)"

definition isHexDigit :: "char \<Rightarrow> bool" where
  "isHexDigit c = (c \<in> set ''0123456789abcdefABCDEF'')"

definition ObjectId_isValid :: "string \<Rightarrow> bool" where
  "ObjectId_isValid s = (length s = 24 \<and> list_all isHexDigit s)"

definition ObjectId_new :: "string \<Rightarrow> ObjectId" where
  "ObjectId_new s = map toLowerCase s"

text \<open>\<^verbatim>\<open>enum TaskStatus { TODO = 'TODO', DONE = 'DONE' }\<close>: a string enum, so a status is
  a string at run time, and \<^verbatim>\<open>updateTaskStatus\<close> takes \<^verbatim>\<open>status: any\<close>.\<close>

type_synonym TaskStatus = string

definition TODO :: TaskStatus where
  "TODO = ''TODO''"

definition DONE :: TaskStatus where
  "DONE = ''DONE''"

section \<open>Entity model\<close>

text \<open>
  The interfaces of \<^verbatim>\<open>models/Task.ts\<close> and \<^verbatim>\<open>models/Project.ts\<close>. An optional
  field (\<^verbatim>\<open>doneDate?\<close>) is an \<open>option\<close>, \<open>None\<close> when the field is absent or
  \<^verbatim>\<open>undefined\<close>. The \<^verbatim>\<open>_id\<close> of a stored document is the key under which the
  collection holds it.
\<close>

record Task =
  name :: string
  status :: TaskStatus
  startDate :: Date
  dueDate :: Date
  createdAt :: Date
  updatedAt :: Date
  doneDate :: "Date option"
  projectId :: "ObjectId option"

text \<open>\<^verbatim>\<open>CreateTaskDto = Omit<Task, '_id' | 'createdAt' | 'updatedAt' | 'doneDate'>\<close>\<close>

record CreateTaskDto =
  name :: string
  status :: TaskStatus
  startDate :: Date
  dueDate :: Date
  projectId :: "ObjectId option"

text \<open>\<^verbatim>\<open>UpdateTaskDto = Partial<Omit<Task, '_id' | 'createdAt'>> & { updatedAt: Date }\<close>\<close>

record UpdateTaskDto =
  name :: "string option"
  status :: "TaskStatus option"
  startDate :: "Date option"
  dueDate :: "Date option"
  updatedAt :: Date
  doneDate :: "Date option"
  projectId :: "ObjectId option"

text \<open>\<^verbatim>\<open>Partial<Task>\<close>, also the shape of an update document under \<^verbatim>\<open>$set\<close>.\<close>

record PartialTask =
  name :: "string option"
  status :: "TaskStatus option"
  startDate :: "Date option"
  dueDate :: "Date option"
  createdAt :: "Date option"
  updatedAt :: "Date option"
  doneDate :: "Date option"
  projectId :: "ObjectId option"

record Project =
  name :: string
  description :: "string option"
  startDate :: Date
  endDate :: Date
  createdAt :: Date
  updatedAt :: Date

text \<open>\<^verbatim>\<open>CreateProjectDto = Omit<Project, '_id' | 'createdAt' | 'updatedAt'>\<close>\<close>

record CreateProjectDto =
  name :: string
  description :: "string option"
  startDate :: Date
  endDate :: Date

text \<open>\<^verbatim>\<open>UpdateProjectDto = Partial<Omit<Project, '_id' | 'createdAt'>> & { updatedAt: Date }\<close>\<close>

record UpdateProjectDto =
  name :: "string option"
  description :: "string option"
  startDate :: "Date option"
  endDate :: "Date option"
  updatedAt :: Date

record PartialProject =
  name :: "string option"
  description :: "string option"
  startDate :: "Date option"
  endDate :: "Date option"
  createdAt :: "Date option"
  updatedAt :: "Date option"

section \<open>The storage gateway\<close>

text \<open>
  A collection is the list of its documents in insertion order, each under its
  \<^verbatim>\<open>_id\<close>. The operations below are the ones the services call on
  \<^verbatim>\<open>db.collection(...)\<close>; a filter is a predicate on the stored pair.
\<close>

type_synonym 'd collection = "(ObjectId \<times> 'd) list"

record Db =
  tasks :: "Task collection"
  projects :: "Project collection"

text \<open>
  The failures of the services: \<open>InvalidArgument\<close> for \<^verbatim>\<open>Invalid Task ID\<close> and
  \<^verbatim>\<open>Invalid Project ID\<close>, \<open>Conflict\<close> for \<^verbatim>\<open>A task/project with the name "..."
  already exists.\<close>, \<open>NotFound\<close> for \<^verbatim>\<open>Project not found\<close>, and \<open>DuplicateKey\<close>
  for the storage error of an insert under an \<^verbatim>\<open>_id\<close> that the collection holds.
\<close>

datatype error = InvalidArgument | Conflict | NotFound | DuplicateKey

record UpdateResult =
  matchedCount :: nat
  modifiedCount :: nat

definition find_docs :: "'d collection \<Rightarrow> (ObjectId \<times> 'd \<Rightarrow> bool) \<Rightarrow> 'd collection" where
  "find_docs coll flt = filter flt coll"

definition findOne :: "'d collection \<Rightarrow> (ObjectId \<times> 'd \<Rightarrow> bool) \<Rightarrow> (ObjectId \<times> 'd) option" where
  "findOne coll flt = List.find flt coll"

text \<open>\<^verbatim>\<open>insertOne\<close>: \<open>oid\<close> is the identifier generated for the document.\<close>

definition insertOne :: "'d collection \<Rightarrow> ObjectId \<Rightarrow> 'd \<Rightarrow> error + ('d collection \<times> ObjectId)" where
  "insertOne coll oid d =
     (if oid \<in> fst ` set coll then Inl DuplicateKey else Inr (coll @ [(oid, d)], oid))"

text \<open>\<^verbatim>\<open>updateOne\<close> rewrites the first document that matches; \<^verbatim>\<open>modifiedCount\<close>
  counts it only when the update changed it.\<close>

fun updateOne :: "'d collection \<Rightarrow> (ObjectId \<times> 'd \<Rightarrow> bool) \<Rightarrow> ('d \<Rightarrow> 'd) \<Rightarrow> 'd collection \<times> UpdateResult" where
  "updateOne [] flt upd = ([], \<lparr>matchedCount = 0, modifiedCount = 0\<rparr>)"
| "updateOne (x # xs) flt upd =
     (if flt x
      then ((fst x, upd (snd x)) # xs,
            \<lparr>matchedCount = 1, modifiedCount = (if upd (snd x) = snd x then 0 else 1)\<rparr>)
      else (case updateOne xs flt upd of (xs', r) \<Rightarrow> (x # xs', r)))"

definition updateMany :: "'d collection \<Rightarrow> (ObjectId \<times> 'd \<Rightarrow> bool) \<Rightarrow> ('d \<Rightarrow> 'd) \<Rightarrow> 'd collection" where
  "updateMany coll flt upd = map (\<lambda>x. if flt x then (fst x, upd (snd x)) else x) coll"

text \<open>\<^verbatim>\<open>deleteOne\<close> removes the first document that matches and returns
  \<^verbatim>\<open>deletedCount\<close>.\<close>

fun deleteOne :: "'d collection \<Rightarrow> (ObjectId \<times> 'd \<Rightarrow> bool) \<Rightarrow> 'd collection \<times> nat" where
  "deleteOne [] flt = ([], 0)"
| "deleteOne (x # xs) flt =
     (if flt x then (xs, 1)
      else (case deleteOne xs flt of (xs', n) \<Rightarrow> (x # xs', n)))"

text \<open>The filter \<^verbatim>\<open>{ _id: oid }\<close>.\<close>

definition by_id :: "ObjectId \<Rightarrow> ObjectId \<times> 'd \<Rightarrow> bool" where
  "by_id oid x = (fst x = oid)"

text \<open>
  The filter \<^verbatim>\<open>{ name: v }\<close> read against the stored name \<open>n\<close>. A value
  \<^verbatim>\<open>undefined\<close> is sent to the store as \<^verbatim>\<open>null\<close>, which selects the documents
  whose name is \<^verbatim>\<open>null\<close> or missing; a stored Task or Project has a name, so it
  selects none of them.
\<close>

definition name_eq :: "string option \<Rightarrow> string \<Rightarrow> bool" where
  "name_eq v n = (case v of None \<Rightarrow> False | Some s \<Rightarrow> n = s)"

text \<open>\<^verbatim>\<open>{ $set: updateData }\<close> on a task and on a project: the fields the update
  document has are written, the others stay.\<close>

definition set_Task :: "PartialTask \<Rightarrow> Task \<Rightarrow> Task" where
  "set_Task u t =
     \<lparr>Task.name = (case PartialTask.name u of Some v \<Rightarrow> v | None \<Rightarrow> Task.name t),
      Task.status = (case PartialTask.status u of Some v \<Rightarrow> v | None \<Rightarrow> Task.status t),
      Task.startDate = (case PartialTask.startDate u of Some v \<Rightarrow> v | None \<Rightarrow> Task.startDate t),
      Task.dueDate = (case PartialTask.dueDate u of Some v \<Rightarrow> v | None \<Rightarrow> Task.dueDate t),
      Task.createdAt = (case PartialTask.createdAt u of Some v \<Rightarrow> v | None \<Rightarrow> Task.createdAt t),
      Task.updatedAt = (case PartialTask.updatedAt u of Some v \<Rightarrow> v | None \<Rightarrow> Task.updatedAt t),
      Task.doneDate = (case PartialTask.doneDate u of Some v \<Rightarrow> Some v | None \<Rightarrow> Task.doneDate t),
      Task.projectId = (case PartialTask.projectId u of Some v \<Rightarrow> Some v | None \<Rightarrow> Task.projectId t)\<rparr>"

definition set_Project :: "PartialProject \<Rightarrow> Project \<Rightarrow> Project" where
  "set_Project u p =
     \<lparr>Project.name = (case PartialProject.name u of Some v \<Rightarrow> v | None \<Rightarrow> Project.name p),
      Project.description =
        (case PartialProject.description u of Some v \<Rightarrow> Some v | None \<Rightarrow> Project.description p),
      Project.startDate =
        (case PartialProject.startDate u of Some v \<Rightarrow> v | None \<Rightarrow> Project.startDate p),
      Project.endDate = (case PartialProject.endDate u of Some v \<Rightarrow> v | None \<Rightarrow> Project.endDate p),
      Project.createdAt =
        (case PartialProject.createdAt u of Some v \<Rightarrow> v | None \<Rightarrow> Project.createdAt p),
      Project.updatedAt =
        (case PartialProject.updatedAt u of Some v \<Rightarrow> v | None \<Rightarrow> Project.updatedAt p)\<rparr>"

text \<open>\<^verbatim>\<open>{ $unset: { projectId: '' } }\<close>\<close>

definition unset_projectId :: "Task \<Rightarrow> Task" where
  "unset_projectId t = t\<lparr>Task.projectId := None\<rparr>"

section \<open>Task service\<close>

text \<open>
  Every service returns its result, or the error it throws, together with the store it
  leaves behind.
\<close>

text \<open>\<^verbatim>\<open>createTask\<close>: \<open>now1\<close> and \<open>now2\<close> are the two clock readings, \<open>oid\<close> the
  identifier generated for the insert.\<close>

definition createTask :: "Db \<Rightarrow> Date \<Rightarrow> Date \<Rightarrow> ObjectId \<Rightarrow> CreateTaskDto \<Rightarrow> (error + ObjectId) \<times> Db" where
  "createTask db now1 now2 oid taskData =
     (case findOne (tasks db) (\<lambda>x. Task.name (snd x) = CreateTaskDto.name taskData) of
        Some existingTask \<Rightarrow> (Inl Conflict, db)
      | None \<Rightarrow>
          (let taskToInsert =
                 \<lparr>Task.name = CreateTaskDto.name taskData,
                  Task.status = TODO,
                  Task.startDate = CreateTaskDto.startDate taskData,
                  Task.dueDate = CreateTaskDto.dueDate taskData,
                  Task.createdAt = now1,
                  Task.updatedAt = now2,
                  Task.doneDate = None,
                  Task.projectId = CreateTaskDto.projectId taskData\<rparr>
           in (case insertOne (tasks db) oid taskToInsert of
                 Inl e \<Rightarrow> (Inl e, db)
               | Inr (coll, insertedId) \<Rightarrow> (Inr insertedId, db\<lparr>tasks := coll\<rparr>))))"

text \<open>\<^verbatim>\<open>Object.fromEntries(Object.entries(updateData).filter(([_, value]) => value !== undefined))\<close>:
  the entries of the patch that are defined.\<close>

definition cleanedData :: "UpdateTaskDto \<Rightarrow> PartialTask" where
  "cleanedData updateData =
     \<lparr>PartialTask.name = UpdateTaskDto.name updateData,
      PartialTask.status = UpdateTaskDto.status updateData,
      PartialTask.startDate = UpdateTaskDto.startDate updateData,
      PartialTask.dueDate = UpdateTaskDto.dueDate updateData,
      PartialTask.createdAt = None,
      PartialTask.updatedAt = Some (UpdateTaskDto.updatedAt updateData),
      PartialTask.doneDate = UpdateTaskDto.doneDate updateData,
      PartialTask.projectId = UpdateTaskDto.projectId updateData\<rparr>"

definition updateTask :: "Db \<Rightarrow> string \<Rightarrow> UpdateTaskDto \<Rightarrow> (error + nat) \<times> Db" where
  "updateTask db id' updateData =
     (if \<not> ObjectId_isValid id' then (Inl InvalidArgument, db)
      else (case findOne (tasks db) (\<lambda>x. name_eq (UpdateTaskDto.name updateData) (Task.name (snd x))) of
              Some existingTask \<Rightarrow> (Inl Conflict, db)
            | None \<Rightarrow>
                (let taskId = ObjectId_new id'
                 in (case updateOne (tasks db) (by_id taskId) (set_Task (cleanedData updateData)) of
                       (coll, result) \<Rightarrow> (Inr (modifiedCount result), db\<lparr>tasks := coll\<rparr>)))))"

definition deleteTask :: "Db \<Rightarrow> string \<Rightarrow> (error + nat) \<times> Db" where
  "deleteTask db id' =
     (if \<not> ObjectId_isValid id' then (Inl InvalidArgument, db)
      else (let taskId = ObjectId_new id'
            in (case deleteOne (tasks db) (by_id taskId) of
                  (coll, deletedCount) \<Rightarrow> (Inr deletedCount, db\<lparr>tasks := coll\<rparr>))))"

text \<open>\<^verbatim>\<open>updateTaskStatus\<close>: \<open>now1\<close> is the clock reading for \<^verbatim>\<open>updatedAt\<close>, \<open>now2\<close>
  the one that follows it, taken for \<^verbatim>\<open>doneDate\<close> or for \<^verbatim>\<open>startDate\<close>.\<close>

definition updateTaskStatus :: "Db \<Rightarrow> Date \<Rightarrow> Date \<Rightarrow> string \<Rightarrow> TaskStatus \<Rightarrow> (error + nat) \<times> Db" where
  "updateTaskStatus db now1 now2 id' st =
     (if \<not> ObjectId_isValid id' then (Inl InvalidArgument, db)
      else
        (let taskId = ObjectId_new id';
             updateData0 =
               \<lparr>PartialTask.name = None, PartialTask.status = Some st,
                PartialTask.startDate = None, PartialTask.dueDate = None,
                PartialTask.createdAt = None, PartialTask.updatedAt = Some now1,
                PartialTask.doneDate = None, PartialTask.projectId = None\<rparr>;
             updateData1 =
               (if st = ''DONE'' then updateData0\<lparr>PartialTask.doneDate := Some now2\<rparr>
                else updateData0);
             updateData =
               (if st = ''TODO'' then updateData1\<lparr>PartialTask.startDate := Some now2\<rparr>
                else updateData1)
         in (case updateOne (tasks db) (by_id taskId) (set_Task updateData) of
               (coll, result) \<Rightarrow> (Inr (modifiedCount result), db\<lparr>tasks := coll\<rparr>))))"

definition assignTaskToProject :: "Db \<Rightarrow> string \<Rightarrow> string \<Rightarrow> (error + nat) \<times> Db" where
  "assignTaskToProject db taskId' projectId' =
     (if \<not> ObjectId_isValid projectId' then (Inl InvalidArgument, db)
      else if \<not> ObjectId_isValid taskId' then (Inl InvalidArgument, db)
      else
        (let taskObjectId = ObjectId_new taskId';
             projectObjectId = ObjectId_new projectId'
         in (case findOne (projects db) (by_id projectObjectId) of
               None \<Rightarrow> (Inl NotFound, db)
             | Some projectExists \<Rightarrow>
                 (case updateOne (tasks db) (by_id taskObjectId)
                         (\<lambda>t. t\<lparr>Task.projectId := Some projectObjectId\<rparr>) of
                    (coll, result) \<Rightarrow> (Inr (matchedCount result), db\<lparr>tasks := coll\<rparr>)))))"

text \<open>
  \<^verbatim>\<open>searchTasks\<close> hands its argument to the store as a regular expression:
  \<^verbatim>\<open>find({ name: { $regex: name, $options: 'i' } })\<close>. The expression language is
  the store's; what is embedded here is the part built from ordinary characters and
  the dot: a pattern is a sequence of atoms, an ordinary character stands for itself
  (in either case, by option \<^verbatim>\<open>i\<close>), the dot for any character but a line feed,
  and the match may start anywhere in the name. A pattern that holds another
  metacharacter is outside this part and the result is \<open>None\<close>.
\<close>

datatype atom = Lit char | AnyChar

definition metachars :: "char list" where
  "metachars = CHR 0x5C # ''^$.|?*+()[]{}''"

fun parse_regex :: "string \<Rightarrow> atom list option" where
  "parse_regex [] = Some []"
| "parse_regex (c # cs) =
     (if c = CHR ''.'' then map_option ((#) AnyChar) (parse_regex cs)
      else if c \<in> set metachars then None
      else map_option ((#) (Lit c)) (parse_regex cs))"

fun atom_matches :: "atom \<Rightarrow> char \<Rightarrow> bool" where
  "atom_matches (Lit c) x = (toLowerCase c = toLowerCase x)"
| "atom_matches AnyChar x = (x \<noteq> CHR 0x0A)"

fun matches_here :: "atom list \<Rightarrow> string \<Rightarrow> bool" where
  "matches_here [] s = True"
| "matches_here (a # as) [] = False"
| "matches_here (a # as) (x # xs) = (atom_matches a x \<and> matches_here as xs)"

fun regex_search :: "atom list \<Rightarrow> string \<Rightarrow> bool" where
  "regex_search r [] = matches_here r []"
| "regex_search r (x # xs) = (matches_here r (x # xs) \<or> regex_search r xs)"

definition searchTasks :: "Db \<Rightarrow> string \<Rightarrow> Task collection option" where
  "searchTasks db name' =
     (case parse_regex name' of
        None \<Rightarrow> None
      | Some r \<Rightarrow> Some (find_docs (tasks db) (\<lambda>x. regex_search r (Task.name (snd x)))))"

section \<open>Project service\<close>

definition createProject :: "Db \<Rightarrow> Date \<Rightarrow> Date \<Rightarrow> ObjectId \<Rightarrow> CreateProjectDto \<Rightarrow> (error + ObjectId) \<times> Db" where
  "createProject db now1 now2 oid projectData =
     (case findOne (projects db) (\<lambda>x. Project.name (snd x) = CreateProjectDto.name projectData) of
        Some existingProject \<Rightarrow> (Inl Conflict, db)
      | None \<Rightarrow>
          (let projectToInsert =
                 \<lparr>Project.name = CreateProjectDto.name projectData,
                  Project.description = CreateProjectDto.description projectData,
                  Project.startDate = CreateProjectDto.startDate projectData,
                  Project.endDate = CreateProjectDto.endDate projectData,
                  Project.createdAt = now1,
                  Project.updatedAt = now2\<rparr>
           in (case insertOne (projects db) oid projectToInsert of
                 Inl e \<Rightarrow> (Inl e, db)
               | Inr (coll, insertedId) \<Rightarrow> (Inr insertedId, db\<lparr>projects := coll\<rparr>))))"

definition cleanedUpdateData :: "UpdateProjectDto \<Rightarrow> PartialProject" where
  "cleanedUpdateData updateData =
     \<lparr>PartialProject.name = UpdateProjectDto.name updateData,
      PartialProject.description = UpdateProjectDto.description updateData,
      PartialProject.startDate = UpdateProjectDto.startDate updateData,
      PartialProject.endDate = UpdateProjectDto.endDate updateData,
      PartialProject.createdAt = None,
      PartialProject.updatedAt = Some (UpdateProjectDto.updatedAt updateData)\<rparr>"

definition updateProject :: "Db \<Rightarrow> string \<Rightarrow> UpdateProjectDto \<Rightarrow> (error + nat) \<times> Db" where
  "updateProject db id' updateData =
     (if \<not> ObjectId_isValid id' then (Inl InvalidArgument, db)
      else (case findOne (projects db)
                   (\<lambda>x. name_eq (UpdateProjectDto.name updateData) (Project.name (snd x))) of
              Some existingProject \<Rightarrow> (Inl Conflict, db)
            | None \<Rightarrow>
                (let projectId' = ObjectId_new id'
                 in (case updateOne (projects db) (by_id projectId')
                            (set_Project (cleanedUpdateData updateData)) of
                       (coll, result) \<Rightarrow> (Inr (modifiedCount result), db\<lparr>projects := coll\<rparr>)))))"

definition deleteProject :: "Db \<Rightarrow> string \<Rightarrow> (error + nat) \<times> Db" where
  "deleteProject db id' =
     (if \<not> ObjectId_isValid id' then (Inl InvalidArgument, db)
      else
        (let projectId' = ObjectId_new id'
         in (case deleteOne (projects db) (by_id projectId') of
               (coll, deletedCount) \<Rightarrow>
                 (let db1 = db\<lparr>projects := coll\<rparr>;
                      db2 =
                        (if deletedCount \<noteq> 0
                         then db1\<lparr>tasks :=
                                updateMany (tasks db1) (\<lambda>x. Task.projectId (snd x) = Some projectId')
                                  unset_projectId\<rparr>
                         else db1)
                  in (Inr deletedCount, db2)))))"

section \<open>Sequences of calls\<close>

text \<open>The eight mutating operations of the two services, each with the arguments and
  the readings of clock and identifier generator that its call takes.\<close>

datatype operation =
    CreateTask Date Date ObjectId CreateTaskDto
  | CreateProject Date Date ObjectId CreateProjectDto
  | UpdateTask string UpdateTaskDto
  | UpdateProject string UpdateProjectDto
  | SetTaskStatus Date Date string TaskStatus
  | AssignTaskToProject string string
  | DeleteTask string
  | DeleteProject string

fun exec :: "Db \<Rightarrow> operation \<Rightarrow> Db" where
  "exec db (CreateTask now1 now2 oid taskData) = snd (createTask db now1 now2 oid taskData)"
| "exec db (CreateProject now1 now2 oid projectData) = snd (createProject db now1 now2 oid projectData)"
| "exec db (UpdateTask id' updateData) = snd (updateTask db id' updateData)"
| "exec db (UpdateProject id' updateData) = snd (updateProject db id' updateData)"
| "exec db (SetTaskStatus now1 now2 id' st) = snd (updateTaskStatus db now1 now2 id' st)"
| "exec db (AssignTaskToProject taskId' projectId') = snd (assignTaskToProject db taskId' projectId')"
| "exec db (DeleteTask id') = snd (deleteTask db id')"
| "exec db (DeleteProject id') = snd (deleteProject db id')"

section \<open>Properties of a store\<close>

text \<open>The store keeps the \<^verbatim>\<open>_id\<close>s of a collection pairwise distinct.\<close>

definition ids_distinct :: "Db \<Rightarrow> bool" where
  "ids_distinct db = (distinct (map fst (tasks db)) \<and> distinct (map fst (projects db)))"

text \<open>Name uniqueness: task names pairwise distinct and project names pairwise
  distinct, compared as strings.\<close>

definition names_unique :: "Db \<Rightarrow> bool" where
  "names_unique db =
     (distinct (map (\<lambda>x. Task.name (snd x)) (tasks db)) \<and>
      distinct (map (\<lambda>x. Project.name (snd x)) (projects db)))"

text \<open>The specification's reading of a search: the name contains the query as a
  substring when case is ignored.\<close>

fun startsWith :: "'a list \<Rightarrow> 'a list \<Rightarrow> bool" where
  "startsWith xs [] = True"
| "startsWith [] (y # ys) = False"
| "startsWith (x # xs) (y # ys) = (x = y \<and> startsWith xs ys)"

fun containsList :: "'a list \<Rightarrow> 'a list \<Rightarrow> bool" where
  "containsList [] ys = (ys = [])"
| "containsList (x # xs) ys = (startsWith (x # xs) ys \<or> containsList xs ys)"

definition containsIgnoreCase :: "string \<Rightarrow> string \<Rightarrow> bool" where
  "containsIgnoreCase n s = containsList (map toLowerCase n) (map toLowerCase s)"

section \<open>A sample store\<close>

text \<open>Project Alpha, with task Design assigned to it and task Review unassigned.\<close>

definition P1 :: ObjectId where
  "P1 = ''65b000000000000000000001''"

definition T1 :: ObjectId where
  "T1 = ''65a000000000000000000001''"

definition T2 :: ObjectId where
  "T2 = ''65a000000000000000000002''"

definition alpha :: Project where
  "alpha = \<lparr>Project.name = ''Alpha'', Project.description = None, Project.startDate = 100,
            Project.endDate = 600, Project.createdAt = 50, Project.updatedAt = 50\<rparr>"

definition design :: Task where
  "design = \<lparr>Task.name = ''Design'', Task.status = ''TODO'', Task.startDate = 102,
             Task.dueDate = 110, Task.createdAt = 60, Task.updatedAt = 60,
             Task.doneDate = None, Task.projectId = Some P1\<rparr>"

definition review :: Task where
  "review = \<lparr>Task.name = ''Review'', Task.status = ''DONE'', Task.startDate = 104,
             Task.dueDate = 120, Task.createdAt = 70, Task.updatedAt = 90,
             Task.doneDate = Some 90, Task.projectId = None\<rparr>"

definition store :: Db where
  "store = \<lparr>tasks = [(T1, design), (T2, review)], projects = [(P1, alpha)]\<rparr>"

text \<open>Sample patches: a new due date, a new name, a new description.\<close>

definition reschedule :: "Date \<Rightarrow> UpdateTaskDto" where
  "reschedule u =
     \<lparr>UpdateTaskDto.name = None, UpdateTaskDto.status = None, UpdateTaskDto.startDate = None,
      UpdateTaskDto.dueDate = Some 115, UpdateTaskDto.updatedAt = u,
      UpdateTaskDto.doneDate = None, UpdateTaskDto.projectId = None\<rparr>"

definition rename_task :: "string \<Rightarrow> UpdateTaskDto" where
  "rename_task n =
     \<lparr>UpdateTaskDto.name = Some n, UpdateTaskDto.status = None, UpdateTaskDto.startDate = None,
      UpdateTaskDto.dueDate = None, UpdateTaskDto.updatedAt = 200,
      UpdateTaskDto.doneDate = None, UpdateTaskDto.projectId = None\<rparr>"

definition describe :: "Date \<Rightarrow> UpdateProjectDto" where
  "describe u =
     \<lparr>UpdateProjectDto.name = None, UpdateProjectDto.description = Some ''first release'',
      UpdateProjectDto.startDate = None, UpdateProjectDto.endDate = None,
      UpdateProjectDto.updatedAt = u\<rparr>"

definition rename_project :: "string \<Rightarrow> UpdateProjectDto" where
  "rename_project n =
     \<lparr>UpdateProjectDto.name = Some n, UpdateProjectDto.description = None,
      UpdateProjectDto.startDate = None, UpdateProjectDto.endDate = None,
      UpdateProjectDto.updatedAt = 200\<rparr>"

text \<open>Further identifiers and two drafts.\<close>

definition T3 :: ObjectId where
  "T3 = ''65a000000000000000000003''"

definition T4 :: ObjectId where
  "T4 = ''65a000000000000000000004''"

definition P2 :: ObjectId where
  "P2 = ''65b000000000000000000002''"

definition P3 :: ObjectId where
  "P3 = ''65b000000000000000000003''"

definition build :: CreateTaskDto where
  "build = \<lparr>CreateTaskDto.name = ''Build'', CreateTaskDto.status = ''DONE'',
            CreateTaskDto.startDate = 130, CreateTaskDto.dueDate = 140,
            CreateTaskDto.projectId = None\<rparr>"

definition beta :: CreateProjectDto where
  "beta = \<lparr>CreateProjectDto.name = ''Beta'', CreateProjectDto.description = Some ''second'',
           CreateProjectDto.startDate = 700, CreateProjectDto.endDate = 900\<rparr>"

section \<open>The storage gateway: basic facts\<close>

lemma findOne_None_iff: "findOne coll flt = None \<longleftrightarrow> (\<forall>x\<in>set coll. \<not> flt x)"
  by (auto simp: findOne_def find_None_iff)

lemma findOne_Some_iff: "(\<exists>y. findOne coll flt = Some y) \<longleftrightarrow> (\<exists>x\<in>set coll. flt x)"
  using findOne_None_iff [of coll flt] by auto

lemma findOne_by_id_None: "findOne coll (by_id i) = None \<longleftrightarrow> i \<notin> fst ` set coll"
  by (auto simp: findOne_None_iff by_id_def)

lemma map_by_id_absent:
  "i \<notin> fst ` set coll \<Longrightarrow> map (\<lambda>x. if fst x = i then (fst x, f (snd x)) else x) coll = coll"
  by (induction coll) auto

lemma updateOne_by_id:
  "distinct (map fst coll) \<Longrightarrow>
   updateOne coll (by_id i) f =
     (map (\<lambda>x. if fst x = i then (fst x, f (snd x)) else x) coll,
      \<lparr>matchedCount = (if i \<in> fst ` set coll then 1 else 0),
       modifiedCount = (case map_of coll i of None \<Rightarrow> 0 | Some d \<Rightarrow> if f d = d then 0 else 1)\<rparr>)"
proof (induction coll)
  case Nil
  then show ?case by simp
next
  case (Cons x xs)
  show ?case
  proof (cases "fst x = i")
    case True
    with Cons.prems have "i \<notin> fst ` set xs" by auto
    with True show ?thesis
      by (cases x) (simp add: by_id_def map_by_id_absent)
  next
    case False
    with Cons show ?thesis
      by (cases x) (simp add: by_id_def)
  qed
qed

lemma deleteOne_by_id:
  "distinct (map fst coll) \<Longrightarrow>
   deleteOne coll (by_id i) =
     (filter (\<lambda>x. fst x \<noteq> i) coll, if i \<in> fst ` set coll then 1 else 0)"
proof (induction coll)
  case Nil
  then show ?case by simp
next
  case (Cons x xs)
  show ?case
  proof (cases "fst x = i")
    case True
    with Cons.prems have "i \<notin> fst ` set xs" by auto
    then have "filter (\<lambda>x. fst x \<noteq> i) xs = xs"
      by (induction xs) auto
    with True show ?thesis
      by (simp add: by_id_def)
  next
    case False
    with Cons show ?thesis
      by (simp add: by_id_def)
  qed
qed

lemma fst_updateOne_Cons:
  "fst (updateOne (x # xs) flt upd) =
     (if flt x then (fst x, upd (snd x)) # xs else x # fst (updateOne xs flt upd))"
  by (simp split: prod.splits)

lemma fst_deleteOne_Cons:
  "fst (deleteOne (x # xs) flt) = (if flt x then xs else x # fst (deleteOne xs flt))"
  by (simp split: prod.splits)

lemma updateOne_ids: "map fst (fst (updateOne coll flt upd)) = map fst coll"
  by (induction coll) (simp_all add: fst_updateOne_Cons del: updateOne.simps(2))

lemma updateMany_ids: "map fst (updateMany coll flt upd) = map fst coll"
  by (induction coll) (simp_all add: updateMany_def)

lemma updateOne_keeps:
  "(\<And>d. g (upd d) = g d) \<Longrightarrow>
   map (\<lambda>x. g (snd x)) (fst (updateOne coll flt upd)) = map (\<lambda>x. g (snd x)) coll"
  by (induction coll) (simp_all add: fst_updateOne_Cons del: updateOne.simps(2))

lemma updateOne_values:
  assumes "\<And>d. g (upd d) = n"
  shows "(\<lambda>x. g (snd x)) ` set (fst (updateOne coll flt upd)) \<subseteq>
     insert n ((\<lambda>x. g (snd x)) ` set coll)"
proof (induction coll)
  case Nil
  then show ?case by simp
next
  case (Cons x xs)
  show ?case
  proof (cases "flt x")
    case True
    with assms show ?thesis
      by (auto simp: fst_updateOne_Cons simp del: updateOne.simps(2))
  next
    case False
    with Cons show ?thesis
      by (auto simp: fst_updateOne_Cons simp del: updateOne.simps(2))
  qed
qed

lemma updateOne_fresh:
  assumes "\<And>d. g (upd d) = n"
  shows "distinct (map (\<lambda>x. g (snd x)) coll) \<Longrightarrow> \<forall>x\<in>set coll. g (snd x) \<noteq> n \<Longrightarrow>
   distinct (map (\<lambda>x. g (snd x)) (fst (updateOne coll flt upd)))"
proof (induction coll)
  case Nil
  then show ?case by simp
next
  case (Cons x xs)
  show ?case
  proof (cases "flt x")
    case True
    with Cons.prems assms show ?thesis
      by (auto simp: fst_updateOne_Cons image_iff simp del: updateOne.simps(2))
  next
    case False
    from Cons have ih: "distinct (map (\<lambda>x. g (snd x)) (fst (updateOne xs flt upd)))"
      by simp
    from Cons.prems have "g (snd x) \<noteq> n" and "g (snd x) \<notin> (\<lambda>x. g (snd x)) ` set xs"
      by auto
    with updateOne_values [of g upd n xs flt, OF assms]
    have "g (snd x) \<notin> (\<lambda>x. g (snd x)) ` set (fst (updateOne xs flt upd))"
      by blast
    with False ih show ?thesis
      by (simp add: fst_updateOne_Cons del: updateOne.simps(2))
  qed
qed

lemma deleteOne_subset: "set (fst (deleteOne coll flt)) \<subseteq> set coll"
  by (induction coll) (auto simp: fst_deleteOne_Cons simp del: deleteOne.simps(2))

lemma deleteOne_distinct:
  "distinct (map h coll) \<Longrightarrow> distinct (map h (fst (deleteOne coll flt)))"
proof (induction coll)
  case Nil
  then show ?case by simp
next
  case (Cons x xs)
  from deleteOne_subset [of xs flt] have "h ` set (fst (deleteOne xs flt)) \<subseteq> h ` set xs"
    by blast
  with Cons show ?case
    by (auto simp: fst_deleteOne_Cons simp del: deleteOne.simps(2))
qed

section \<open>The services by cases\<close>

lemma name_eq_iff: "name_eq v n \<longleftrightarrow> v = Some n"
  by (auto simp: name_eq_def split: option.splits)

lemma createTask_cases:
  "createTask db now1 now2 oid taskData =
     (if \<exists>x\<in>set (tasks db). Task.name (snd x) = CreateTaskDto.name taskData
      then (Inl Conflict, db)
      else if oid \<in> fst ` set (tasks db) then (Inl DuplicateKey, db)
      else (Inr oid,
            db\<lparr>tasks := tasks db @
                 [(oid, \<lparr>Task.name = CreateTaskDto.name taskData,
                         Task.status = ''TODO'',
                         Task.startDate = CreateTaskDto.startDate taskData,
                         Task.dueDate = CreateTaskDto.dueDate taskData,
                         Task.createdAt = now1,
                         Task.updatedAt = now2,
                         Task.doneDate = None,
                         Task.projectId = CreateTaskDto.projectId taskData\<rparr>)]\<rparr>))"
proof (cases "findOne (tasks db) (\<lambda>x. Task.name (snd x) = CreateTaskDto.name taskData)")
  case None
  then have "\<not> (\<exists>x\<in>set (tasks db). Task.name (snd x) = CreateTaskDto.name taskData)"
    by (simp add: findOne_None_iff)
  with None show ?thesis
    by (simp add: createTask_def insertOne_def TODO_def)
next
  case (Some existingTask)
  then have "\<exists>x\<in>set (tasks db). Task.name (snd x) = CreateTaskDto.name taskData"
    using findOne_Some_iff [of "tasks db" "\<lambda>x. Task.name (snd x) = CreateTaskDto.name taskData"]
    by blast
  with Some show ?thesis
    by (simp add: createTask_def)
qed

lemma createProject_cases:
  "createProject db now1 now2 oid projectData =
     (if \<exists>x\<in>set (projects db). Project.name (snd x) = CreateProjectDto.name projectData
      then (Inl Conflict, db)
      else if oid \<in> fst ` set (projects db) then (Inl DuplicateKey, db)
      else (Inr oid,
            db\<lparr>projects := projects db @
                 [(oid, \<lparr>Project.name = CreateProjectDto.name projectData,
                         Project.description = CreateProjectDto.description projectData,
                         Project.startDate = CreateProjectDto.startDate projectData,
                         Project.endDate = CreateProjectDto.endDate projectData,
                         Project.createdAt = now1,
                         Project.updatedAt = now2\<rparr>)]\<rparr>))"
proof (cases "findOne (projects db) (\<lambda>x. Project.name (snd x) = CreateProjectDto.name projectData)")
  case None
  then have "\<not> (\<exists>x\<in>set (projects db). Project.name (snd x) = CreateProjectDto.name projectData)"
    by (simp add: findOne_None_iff)
  with None show ?thesis
    by (simp add: createProject_def insertOne_def)
next
  case (Some existingProject)
  then have "\<exists>x\<in>set (projects db). Project.name (snd x) = CreateProjectDto.name projectData"
    using findOne_Some_iff
      [of "projects db" "\<lambda>x. Project.name (snd x) = CreateProjectDto.name projectData"]
    by blast
  with Some show ?thesis
    by (simp add: createProject_def)
qed

lemma updateTask_cases:
  "updateTask db id' p =
     (if \<not> ObjectId_isValid id' then (Inl InvalidArgument, db)
      else if \<exists>x\<in>set (tasks db). UpdateTaskDto.name p = Some (Task.name (snd x))
      then (Inl Conflict, db)
      else (Inr (modifiedCount (snd (updateOne (tasks db) (by_id (ObjectId_new id'))
                                        (set_Task (cleanedData p))))),
            db\<lparr>tasks := fst (updateOne (tasks db) (by_id (ObjectId_new id'))
                                 (set_Task (cleanedData p)))\<rparr>))"
proof (cases "findOne (tasks db) (\<lambda>x. name_eq (UpdateTaskDto.name p) (Task.name (snd x)))")
  case None
  then have "\<not> (\<exists>x\<in>set (tasks db). UpdateTaskDto.name p = Some (Task.name (snd x)))"
    by (simp add: findOne_None_iff name_eq_iff)
  with None show ?thesis
    by (simp add: updateTask_def Let_def split: prod.splits)
next
  case (Some existingTask)
  then have "\<exists>x\<in>set (tasks db). name_eq (UpdateTaskDto.name p) (Task.name (snd x))"
    using findOne_Some_iff [of "tasks db"] by blast
  then have "\<exists>x\<in>set (tasks db). UpdateTaskDto.name p = Some (Task.name (snd x))"
    by (simp add: name_eq_iff)
  with Some show ?thesis
    by (simp add: updateTask_def)
qed

lemma updateProject_cases:
  "updateProject db id' p =
     (if \<not> ObjectId_isValid id' then (Inl InvalidArgument, db)
      else if \<exists>x\<in>set (projects db). UpdateProjectDto.name p = Some (Project.name (snd x))
      then (Inl Conflict, db)
      else (Inr (modifiedCount (snd (updateOne (projects db) (by_id (ObjectId_new id'))
                                        (set_Project (cleanedUpdateData p))))),
            db\<lparr>projects := fst (updateOne (projects db) (by_id (ObjectId_new id'))
                                    (set_Project (cleanedUpdateData p)))\<rparr>))"
proof (cases "findOne (projects db) (\<lambda>x. name_eq (UpdateProjectDto.name p) (Project.name (snd x)))")
  case None
  then have "\<not> (\<exists>x\<in>set (projects db). UpdateProjectDto.name p = Some (Project.name (snd x)))"
    by (simp add: findOne_None_iff name_eq_iff)
  with None show ?thesis
    by (simp add: updateProject_def Let_def split: prod.splits)
next
  case (Some existingProject)
  then have "\<exists>x\<in>set (projects db). name_eq (UpdateProjectDto.name p) (Project.name (snd x))"
    using findOne_Some_iff [of "projects db"] by blast
  then have "\<exists>x\<in>set (projects db). UpdateProjectDto.name p = Some (Project.name (snd x))"
    by (simp add: name_eq_iff)
  with Some show ?thesis
    by (simp add: updateProject_def)
qed

lemma set_Task_done:
  "set_Task \<lparr>PartialTask.name = None, PartialTask.status = Some st,
              PartialTask.startDate = None, PartialTask.dueDate = None,
              PartialTask.createdAt = None, PartialTask.updatedAt = Some u,
              PartialTask.doneDate = Some d, PartialTask.projectId = None\<rparr> t =
   t\<lparr>Task.status := st, Task.updatedAt := u, Task.doneDate := Some d\<rparr>"
  by (cases t) (simp add: set_Task_def)

lemma set_Task_todo:
  "set_Task \<lparr>PartialTask.name = None, PartialTask.status = Some st,
              PartialTask.startDate = Some d, PartialTask.dueDate = None,
              PartialTask.createdAt = None, PartialTask.updatedAt = Some u,
              PartialTask.doneDate = None, PartialTask.projectId = None\<rparr> t =
   t\<lparr>Task.status := st, Task.startDate := d, Task.updatedAt := u\<rparr>"
  by (cases t) (simp add: set_Task_def)

lemma name_set_Task:
  "Task.name (set_Task (cleanedData p) d) =
     (case UpdateTaskDto.name p of Some n \<Rightarrow> n | None \<Rightarrow> Task.name d)"
  by (simp add: set_Task_def cleanedData_def)

lemma name_set_Project:
  "Project.name (set_Project (cleanedUpdateData q) d) =
     (case UpdateProjectDto.name q of Some n \<Rightarrow> n | None \<Rightarrow> Project.name d)"
  by (simp add: set_Project_def cleanedUpdateData_def)

section \<open>Distinct identifiers are kept\<close>

lemma ids_distinct_empty: "ids_distinct \<lparr>tasks = [], projects = []\<rparr>"
  by (simp add: ids_distinct_def)

lemma ids_distinct_exec:
  assumes "ids_distinct db"
  shows "ids_distinct (exec db op)"
proof (cases op)
  case (CreateTask now1 now2 oid taskData)
  with assms show ?thesis
    by (auto simp: createTask_cases ids_distinct_def)
next
  case (CreateProject now1 now2 oid projectData)
  with assms show ?thesis
    by (auto simp: createProject_cases ids_distinct_def)
next
  case (UpdateTask id' updateData)
  with assms show ?thesis
    by (simp add: updateTask_cases ids_distinct_def updateOne_ids)
next
  case (UpdateProject id' updateData)
  with assms show ?thesis
    by (simp add: updateProject_cases ids_distinct_def updateOne_ids)
next
  case (SetTaskStatus now1 now2 id' st)
  with assms show ?thesis
    by (simp add: updateTaskStatus_def Let_def case_prod_beta ids_distinct_def updateOne_ids)
next
  case (AssignTaskToProject taskId' projectId')
  with assms show ?thesis
    by (simp add: assignTaskToProject_def Let_def case_prod_beta ids_distinct_def updateOne_ids
        split: option.splits)
next
  case (DeleteTask id')
  with assms show ?thesis
    by (simp add: deleteTask_def Let_def case_prod_beta ids_distinct_def deleteOne_distinct)
next
  case (DeleteProject id')
  with assms show ?thesis
    by (simp add: deleteProject_def Let_def case_prod_beta ids_distinct_def deleteOne_distinct
        updateMany_ids)
qed

lemma ids_distinct_foldl: "ids_distinct db \<Longrightarrow> ids_distinct (foldl exec db ops)"
  by (induction ops arbitrary: db) (simp_all add: ids_distinct_exec)

section \<open>Facts about the sample store\<close>

lemmas sample_defs = store_def design_def review_def alpha_def T1_def T2_def P1_def

lemma valid_T1: "ObjectId_isValid T1"
  by (simp add: T1_def ObjectId_isValid_def isHexDigit_def)

lemma valid_T2: "ObjectId_isValid T2"
  by (simp add: T2_def ObjectId_isValid_def isHexDigit_def)

lemma valid_P1: "ObjectId_isValid P1"
  by (simp add: P1_def ObjectId_isValid_def isHexDigit_def)

lemma new_T1: "ObjectId_new T1 = T1"
  by (simp add: T1_def ObjectId_new_def toLowerCase_def)

lemma new_T2: "ObjectId_new T2 = T2"
  by (simp add: T2_def ObjectId_new_def toLowerCase_def)

lemma new_P1: "ObjectId_new P1 = P1"
  by (simp add: P1_def ObjectId_new_def toLowerCase_def)

lemma ids_neq:
  "T1 \<noteq> T2" "T2 \<noteq> T1" "T1 \<noteq> P1" "P1 \<noteq> T1" "T2 \<noteq> P1" "P1 \<noteq> T2"
  by (simp_all add: T1_def T2_def P1_def)

lemmas sample_simps = store_def design_def review_def alpha_def new_T1 new_T2 new_P1 ids_neq

lemma ids_distinct_store: "ids_distinct store"
  by (simp add: ids_distinct_def sample_defs)

section \<open>Creating a task\<close>

text \<open>
  C1. For every draft, \<open>createTask\<close> fails with \<open>Conflict\<close> when a stored task has
  exactly the draft's name. Otherwise, the generated identifier being free, it appends
  one task: the draft's name, dates and project, status \<open>TODO\<close> whatever status the
  draft carries, \<open>createdAt\<close> and \<open>updatedAt\<close> the readings of the clock, no
  \<open>doneDate\<close>; and it returns the identifier.
\<close>

theorem createTask_spec:
  "((\<exists>x\<in>set (tasks db). Task.name (snd x) = CreateTaskDto.name taskData) \<longrightarrow>
      createTask db now1 now2 oid taskData = (Inl Conflict, db)) \<and>
   (\<not> (\<exists>x\<in>set (tasks db). Task.name (snd x) = CreateTaskDto.name taskData) \<and>
    oid \<notin> fst ` set (tasks db) \<longrightarrow>
      createTask db now1 now2 oid taskData =
        (Inr oid,
         db\<lparr>tasks := tasks db @
              [(oid, \<lparr>Task.name = CreateTaskDto.name taskData,
                      Task.status = ''TODO'',
                      Task.startDate = CreateTaskDto.startDate taskData,
                      Task.dueDate = CreateTaskDto.dueDate taskData,
                      Task.createdAt = now1,
                      Task.updatedAt = now2,
                      Task.doneDate = None,
                      Task.projectId = CreateTaskDto.projectId taskData\<rparr>)]\<rparr>))"
  by (simp add: createTask_cases)

theorem createTask_spec_witness:
  "createTask store 1000 1001 T3 (build\<lparr>CreateTaskDto.name := ''Design''\<rparr>) =
     (Inl Conflict, store) \<and>
   createTask store 1000 1001 T3 build =
     (Inr T3,
      \<lparr>tasks = [(T1, design), (T2, review),
                (T3, \<lparr>Task.name = ''Build'', Task.status = ''TODO'', Task.startDate = 130,
                      Task.dueDate = 140, Task.createdAt = 1000, Task.updatedAt = 1001,
                      Task.doneDate = None, Task.projectId = None\<rparr>)],
       projects = [(P1, alpha)]\<rparr>)"
  using createTask_spec [of store "build\<lparr>CreateTaskDto.name := ''Design''\<rparr>" 1000 1001 T3]
    createTask_spec [of store build 1000 1001 T3]
  by (simp add: sample_defs T3_def build_def)

section \<open>Updating a task or a project\<close>

text \<open>
  C2, as the services have it. For every call of \<open>updateTask\<close> or \<open>updateProject\<close> with
  a well-formed identifier that does not fail with \<open>Conflict\<close>, on a store whose
  identifiers are distinct: the document under the identifier gets the fields that the
  patch defines and keeps its stored value in every other field, no other document and
  no other collection changes, and \<open>updatedAt\<close> is written like any other field,
  from the patch, whose type makes it mandatory. The services read no clock.
\<close>

theorem update_sparse:
  assumes "ids_distinct db" and "ObjectId_isValid id'"
  shows
  "(fst (updateTask db id' p) \<noteq> Inl Conflict \<longrightarrow>
      snd (updateTask db id' p) =
        db\<lparr>tasks := map (\<lambda>x. if fst x = ObjectId_new id'
          then (fst x,
            \<lparr>Task.name = (case UpdateTaskDto.name p of Some v \<Rightarrow> v | None \<Rightarrow> Task.name (snd x)),
             Task.status = (case UpdateTaskDto.status p of Some v \<Rightarrow> v | None \<Rightarrow> Task.status (snd x)),
             Task.startDate =
               (case UpdateTaskDto.startDate p of Some v \<Rightarrow> v | None \<Rightarrow> Task.startDate (snd x)),
             Task.dueDate = (case UpdateTaskDto.dueDate p of Some v \<Rightarrow> v | None \<Rightarrow> Task.dueDate (snd x)),
             Task.createdAt = Task.createdAt (snd x),
             Task.updatedAt = UpdateTaskDto.updatedAt p,
             Task.doneDate =
               (case UpdateTaskDto.doneDate p of Some v \<Rightarrow> Some v | None \<Rightarrow> Task.doneDate (snd x)),
             Task.projectId =
               (case UpdateTaskDto.projectId p of Some v \<Rightarrow> Some v | None \<Rightarrow> Task.projectId (snd x))\<rparr>)
          else x) (tasks db)\<rparr>) \<and>
   (fst (updateProject db id' q) \<noteq> Inl Conflict \<longrightarrow>
      snd (updateProject db id' q) =
        db\<lparr>projects := map (\<lambda>x. if fst x = ObjectId_new id'
          then (fst x,
            \<lparr>Project.name =
               (case UpdateProjectDto.name q of Some v \<Rightarrow> v | None \<Rightarrow> Project.name (snd x)),
             Project.description =
               (case UpdateProjectDto.description q of Some v \<Rightarrow> Some v
                | None \<Rightarrow> Project.description (snd x)),
             Project.startDate =
               (case UpdateProjectDto.startDate q of Some v \<Rightarrow> v | None \<Rightarrow> Project.startDate (snd x)),
             Project.endDate =
               (case UpdateProjectDto.endDate q of Some v \<Rightarrow> v | None \<Rightarrow> Project.endDate (snd x)),
             Project.createdAt = Project.createdAt (snd x),
             Project.updatedAt = UpdateProjectDto.updatedAt q\<rparr>)
          else x) (projects db)\<rparr>)"
proof -
  from assms(1) have dt: "distinct (map fst (tasks db))" and dp: "distinct (map fst (projects db))"
    by (simp_all add: ids_distinct_def)
  have t: "fst (updateTask db id' p) \<noteq> Inl Conflict \<Longrightarrow>
      snd (updateTask db id' p) =
        db\<lparr>tasks := map (\<lambda>x. if fst x = ObjectId_new id'
                              then (fst x, set_Task (cleanedData p) (snd x)) else x) (tasks db)\<rparr>"
    using assms(2) dt by (simp add: updateTask_cases updateOne_by_id split: if_splits)
  have q: "fst (updateProject db id' q) \<noteq> Inl Conflict \<Longrightarrow>
      snd (updateProject db id' q) =
        db\<lparr>projects := map (\<lambda>x. if fst x = ObjectId_new id'
                              then (fst x, set_Project (cleanedUpdateData q) (snd x)) else x)
                         (projects db)\<rparr>"
    using assms(2) dp by (simp add: updateProject_cases updateOne_by_id split: if_splits)
  from t q show ?thesis
    by (simp add: set_Task_def cleanedData_def set_Project_def cleanedUpdateData_def)
qed

theorem update_sparse_witness:
  "ids_distinct store \<and> ObjectId_isValid T1 \<and> ObjectId_isValid P1 \<and>
   fst (updateTask store T1 (reschedule 3)) \<noteq> Inl Conflict \<and>
   snd (updateTask store T1 (reschedule 3)) =
     \<lparr>tasks = [(T1, design\<lparr>Task.dueDate := 115, Task.updatedAt := 3\<rparr>), (T2, review)],
      projects = [(P1, alpha)]\<rparr> \<and>
   fst (updateProject store P1 (describe 5)) \<noteq> Inl Conflict \<and>
   snd (updateProject store P1 (describe 5)) =
     \<lparr>tasks = [(T1, design), (T2, review)],
      projects = [(P1, alpha\<lparr>Project.description := Some ''first release'',
                              Project.updatedAt := 5\<rparr>)]\<rparr>"
proof -
  have ct: "fst (updateTask store T1 (reschedule 3)) \<noteq> Inl Conflict"
    by (simp add: updateTask_cases valid_T1 reschedule_def)
  have cp: "fst (updateProject store P1 (describe 5)) \<noteq> Inl Conflict"
    by (simp add: updateProject_cases valid_P1 describe_def)
  from update_sparse [OF ids_distinct_store valid_T1, of "reschedule 3" "describe 5"] ct
  have t: "snd (updateTask store T1 (reschedule 3)) =
     \<lparr>tasks = [(T1, design\<lparr>Task.dueDate := 115, Task.updatedAt := 3\<rparr>), (T2, review)],
      projects = [(P1, alpha)]\<rparr>"
    by (simp add: new_T1) (simp add: sample_defs reschedule_def)
  from update_sparse [OF ids_distinct_store valid_P1, of "reschedule 3" "describe 5"] cp
  have q: "snd (updateProject store P1 (describe 5)) =
     \<lparr>tasks = [(T1, design), (T2, review)],
      projects = [(P1, alpha\<lparr>Project.description := Some ''first release'',
                              Project.updatedAt := 5\<rparr>)]\<rparr>"
    by (simp add: new_P1) (simp add: sample_defs describe_def)
  from ids_distinct_store valid_T1 valid_P1 ct cp t q show ?thesis
    by simp
qed

text \<open>
  The claim as stated, that the stored \<open>updatedAt\<close> becomes the current server time
  regardless of what the patch specifies, fails: from the same store the same call with
  \<open>updatedAt\<close> 3 and with \<open>updatedAt\<close> 4 in the patch stores 3 and 4, and likewise
  5 and 6 for a project.
\<close>

theorem update_updatedAt_counterexample:
  "snd (updateTask store T1 (reschedule 3)) =
     \<lparr>tasks = [(T1, design\<lparr>Task.dueDate := 115, Task.updatedAt := 3\<rparr>), (T2, review)],
      projects = [(P1, alpha)]\<rparr> \<and>
   snd (updateTask store T1 (reschedule 4)) =
     \<lparr>tasks = [(T1, design\<lparr>Task.dueDate := 115, Task.updatedAt := 4\<rparr>), (T2, review)],
      projects = [(P1, alpha)]\<rparr> \<and>
   snd (updateProject store P1 (describe 5)) =
     \<lparr>tasks = [(T1, design), (T2, review)],
      projects = [(P1, alpha\<lparr>Project.description := Some ''first release'',
                              Project.updatedAt := 5\<rparr>)]\<rparr> \<and>
   snd (updateProject store P1 (describe 6)) =
     \<lparr>tasks = [(T1, design), (T2, review)],
      projects = [(P1, alpha\<lparr>Project.description := Some ''first release'',
                              Project.updatedAt := 6\<rparr>)]\<rparr>"
  by (simp add: updateTask_cases updateProject_cases valid_T1 valid_P1 new_T1 new_P1
        reschedule_def describe_def by_id_def set_Task_def cleanedData_def set_Project_def
        cleanedUpdateData_def)
     (simp add: sample_defs by_id_def set_Task_def cleanedData_def set_Project_def
        cleanedUpdateData_def reschedule_def describe_def)

section \<open>The duplicate-name check on update\<close>

text \<open>
  C3. The duplicate-name check of \<open>updateTask\<close> and \<open>updateProject\<close> is unconditional.
  For every patch and well-formed identifier the call fails with \<open>Conflict\<close> exactly
  when some stored document has the name the patch carries, whichever document is being
  updated and whether or not the name would change, and the store is then left as it
  was; a patch with no name looks for a document whose name is undefined, finds none,
  and so never fails with \<open>Conflict\<close>.
\<close>

theorem update_duplicate_check:
  assumes "ObjectId_isValid id'"
  shows
  "(fst (updateTask db id' p) = Inl Conflict \<longleftrightarrow>
      (\<exists>x\<in>set (tasks db). UpdateTaskDto.name p = Some (Task.name (snd x)))) \<and>
   (fst (updateTask db id' p) = Inl Conflict \<longrightarrow> snd (updateTask db id' p) = db) \<and>
   (UpdateTaskDto.name p = None \<longrightarrow> fst (updateTask db id' p) \<noteq> Inl Conflict) \<and>
   (fst (updateProject db id' q) = Inl Conflict \<longleftrightarrow>
      (\<exists>x\<in>set (projects db). UpdateProjectDto.name q = Some (Project.name (snd x)))) \<and>
   (fst (updateProject db id' q) = Inl Conflict \<longrightarrow> snd (updateProject db id' q) = db) \<and>
   (UpdateProjectDto.name q = None \<longrightarrow> fst (updateProject db id' q) \<noteq> Inl Conflict)"
  using assms by (simp add: updateTask_cases updateProject_cases)

theorem update_duplicate_check_witness:
  "ObjectId_isValid T2 \<and>
   fst (updateTask store T2 (rename_task ''Design'')) = Inl Conflict \<and>
   snd (updateTask store T2 (rename_task ''Design'')) = store \<and>
   fst (updateTask store T2 (rename_task ''Review'')) = Inl Conflict \<and>
   snd (updateTask store T2 (rename_task ''Review'')) = store \<and>
   fst (updateTask store T2 (rename_task ''Audit'')) \<noteq> Inl Conflict \<and>
   UpdateTaskDto.name (reschedule 3) = None \<and>
   fst (updateTask store T2 (reschedule 3)) \<noteq> Inl Conflict \<and>
   ObjectId_isValid P1 \<and>
   fst (updateProject store P1 (rename_project ''Alpha'')) = Inl Conflict \<and>
   snd (updateProject store P1 (rename_project ''Alpha'')) = store \<and>
   UpdateProjectDto.name (describe 5) = None \<and>
   fst (updateProject store P1 (describe 5)) \<noteq> Inl Conflict"
  using update_duplicate_check [OF valid_T2, of store "rename_task ''Design''" "describe 5"]
    update_duplicate_check [OF valid_T2, of store "rename_task ''Review''" "describe 5"]
    update_duplicate_check [OF valid_T2, of store "rename_task ''Audit''" "describe 5"]
    update_duplicate_check [OF valid_T2, of store "reschedule 3" "describe 5"]
    update_duplicate_check [OF valid_P1, of store "reschedule 3" "rename_project ''Alpha''"]
    update_duplicate_check [OF valid_P1, of store "reschedule 3" "describe 5"]
    valid_T2 valid_P1
  by (simp add: sample_defs rename_task_def reschedule_def rename_project_def describe_def)

section \<open>Status transitions\<close>

text \<open>
  C4. For every well-formed task identifier, on a store whose identifiers are distinct:
  \<open>updateTaskStatus\<close> with \<open>DONE\<close> writes the status, \<open>updatedAt\<close> and \<open>doneDate\<close>
  (the two dates being the clock readings of the call) on the task under the identifier
  and leaves \<open>startDate\<close> and everything else as stored; with \<open>TODO\<close> it writes the
  status, \<open>updatedAt\<close> and \<open>startDate\<close> and leaves \<open>doneDate\<close> as stored, never
  clearing it; neither call fails, whatever the status stored before.
\<close>

theorem updateTaskStatus_spec:
  assumes "ids_distinct db" and "ObjectId_isValid id'"
  shows
  "snd (updateTaskStatus db now1 now2 id' ''DONE'') =
     db\<lparr>tasks := map (\<lambda>x. if fst x = ObjectId_new id'
        then (fst x, (snd x)\<lparr>Task.status := ''DONE'', Task.updatedAt := now1,
                              Task.doneDate := Some now2\<rparr>)
        else x) (tasks db)\<rparr> \<and>
   snd (updateTaskStatus db now1 now2 id' ''TODO'') =
     db\<lparr>tasks := map (\<lambda>x. if fst x = ObjectId_new id'
        then (fst x, (snd x)\<lparr>Task.status := ''TODO'', Task.startDate := now2,
                              Task.updatedAt := now1\<rparr>)
        else x) (tasks db)\<rparr> \<and>
   (\<exists>n. fst (updateTaskStatus db now1 now2 id' ''DONE'') = Inr n) \<and>
   (\<exists>n. fst (updateTaskStatus db now1 now2 id' ''TODO'') = Inr n)"
proof -
  from assms(1) have d: "distinct (map fst (tasks db))"
    by (simp add: ids_distinct_def)
  show ?thesis
    using assms(2)
    by (simp add: updateTaskStatus_def Let_def updateOne_by_id [OF d] set_Task_done set_Task_todo)
qed

theorem updateTaskStatus_spec_witness:
  "ids_distinct store \<and> ObjectId_isValid T1 \<and> ObjectId_isValid T2 \<and>
   snd (updateTaskStatus store 1000 1001 T1 ''DONE'') =
     \<lparr>tasks = [(T1, design\<lparr>Task.status := ''DONE'', Task.updatedAt := 1000,
                           Task.doneDate := Some 1001\<rparr>), (T2, review)],
      projects = [(P1, alpha)]\<rparr> \<and>
   snd (updateTaskStatus store 1000 1001 T2 ''TODO'') =
     \<lparr>tasks = [(T1, design),
               (T2, \<lparr>Task.name = ''Review'', Task.status = ''TODO'', Task.startDate = 1001,
                    Task.dueDate = 120, Task.createdAt = 70, Task.updatedAt = 1000,
                    Task.doneDate = Some 90, Task.projectId = None\<rparr>)],
      projects = [(P1, alpha)]\<rparr>"
  using updateTaskStatus_spec [OF ids_distinct_store valid_T1, of 1000 1001]
    updateTaskStatus_spec [OF ids_distinct_store valid_T2, of 1000 1001]
    ids_distinct_store valid_T1 valid_T2
  by (simp add: sample_simps)

section \<open>Deleting a project\<close>

text \<open>
  C5. For every well-formed project identifier, on a store whose identifiers are
  distinct: when a project is stored under the identifier, \<open>deleteProject\<close> removes it,
  clears \<open>projectId\<close> on exactly the tasks that referred to it, leaves every other task
  as it was, and returns 1, so that afterwards no task refers to the identifier and no
  project is stored under it; when none is stored under it, the call returns 0 and the
  whole store, tasks included, is untouched.
\<close>

theorem deleteProject_spec:
  assumes "ids_distinct db" and "ObjectId_isValid id'"
  shows
  "(ObjectId_new id' \<in> fst ` set (projects db) \<longrightarrow>
      deleteProject db id' =
        (Inr 1,
         \<lparr>tasks = map (\<lambda>x. if Task.projectId (snd x) = Some (ObjectId_new id')
                            then (fst x, (snd x)\<lparr>Task.projectId := None\<rparr>) else x) (tasks db),
          projects = filter (\<lambda>x. fst x \<noteq> ObjectId_new id') (projects db)\<rparr>) \<and>
      (\<forall>x\<in>set (tasks (snd (deleteProject db id'))).
         Task.projectId (snd x) \<noteq> Some (ObjectId_new id')) \<and>
      ObjectId_new id' \<notin> fst ` set (projects (snd (deleteProject db id')))) \<and>
   (ObjectId_new id' \<notin> fst ` set (projects db) \<longrightarrow> deleteProject db id' = (Inr 0, db))"
proof -
  from assms(1) have d: "distinct (map fst (projects db))"
    by (simp add: ids_distinct_def)
  have absent: "i \<notin> fst ` set coll \<Longrightarrow> filter (\<lambda>x. fst x \<noteq> i) coll = coll" for i :: ObjectId
    and coll :: "Project collection"
    by (induction coll) auto
  show ?thesis
    using assms(2)
    by (auto simp: deleteProject_def Let_def deleteOne_by_id [OF d] updateMany_def
        unset_projectId_def absent)
qed

theorem deleteProject_spec_witness:
  "ids_distinct store \<and> ObjectId_isValid P1 \<and> ObjectId_isValid T1 \<and>
   ObjectId_new P1 \<in> fst ` set (projects store) \<and>
   deleteProject store P1 =
     (Inr 1,
      \<lparr>tasks = [(T1, design\<lparr>Task.projectId := None\<rparr>), (T2, review)], projects = []\<rparr>) \<and>
   ObjectId_new T1 \<notin> fst ` set (projects store) \<and>
   deleteProject store T1 = (Inr 0, store)"
proof -
  have 1: "ObjectId_new P1 \<in> fst ` set (projects store)"
    by (simp add: new_P1 store_def)
  have 2: "ObjectId_new T1 \<notin> fst ` set (projects store)"
    by (simp add: sample_simps)
  from deleteProject_spec [OF ids_distinct_store valid_P1] 1
  have 3: "deleteProject store P1 =
     (Inr 1,
      \<lparr>tasks = [(T1, design\<lparr>Task.projectId := None\<rparr>), (T2, review)], projects = []\<rparr>)"
    by (simp add: sample_simps)
  from deleteProject_spec [OF ids_distinct_store valid_T1] 2
  have 4: "deleteProject store T1 = (Inr 0, store)"
    by simp
  from 1 2 3 4 ids_distinct_store valid_P1 valid_T1 show ?thesis
    by simp
qed

section \<open>Assigning a task to a project\<close>

text \<open>
  C6. For all well-formed task and project identifiers, on a store whose identifiers
  are distinct: \<open>assignTaskToProject\<close> fails with \<open>NotFound\<close> when no project is stored
  under the project identifier, and the store is then unchanged; otherwise it writes
  the project identifier on the task under the task identifier and returns the match
  count, 1 when the task exists (also when it already carried that project identifier)
  and 0 when it does not.
\<close>

theorem assignTaskToProject_spec:
  assumes "ids_distinct db" and "ObjectId_isValid taskId'" and "ObjectId_isValid projectId'"
  shows
  "(ObjectId_new projectId' \<notin> fst ` set (projects db) \<longrightarrow>
      assignTaskToProject db taskId' projectId' = (Inl NotFound, db)) \<and>
   (ObjectId_new projectId' \<in> fst ` set (projects db) \<longrightarrow>
      assignTaskToProject db taskId' projectId' =
        (Inr (if ObjectId_new taskId' \<in> fst ` set (tasks db) then 1 else 0),
         db\<lparr>tasks := map (\<lambda>x. if fst x = ObjectId_new taskId'
            then (fst x, (snd x)\<lparr>Task.projectId := Some (ObjectId_new projectId')\<rparr>)
            else x) (tasks db)\<rparr>))"
proof -
  from assms(1) have d: "distinct (map fst (tasks db))"
    by (simp add: ids_distinct_def)
  show ?thesis
  proof (cases "findOne (projects db) (by_id (ObjectId_new projectId'))")
    case None
    then have "ObjectId_new projectId' \<notin> fst ` set (projects db)"
      by (simp add: findOne_by_id_None)
    with None assms(2,3) show ?thesis
      by (simp add: assignTaskToProject_def)
  next
    case (Some projectExists)
    then have "ObjectId_new projectId' \<in> fst ` set (projects db)"
      using findOne_by_id_None [of "projects db" "ObjectId_new projectId'"] by auto
    with Some assms(2,3) show ?thesis
      by (simp add: assignTaskToProject_def Let_def updateOne_by_id [OF d])
  qed
qed

theorem assignTaskToProject_spec_witness:
  "ids_distinct store \<and> ObjectId_isValid T1 \<and> ObjectId_isValid T2 \<and> ObjectId_isValid P1 \<and>
   assignTaskToProject store T2 T1 = (Inl NotFound, store) \<and>
   assignTaskToProject store T2 P1 =
     (Inr 1, \<lparr>tasks = [(T1, design), (T2, review\<lparr>Task.projectId := Some P1\<rparr>)],
              projects = [(P1, alpha)]\<rparr>) \<and>
   assignTaskToProject store T1 P1 = (Inr 1, store) \<and>
   assignTaskToProject store P1 P1 = (Inr 0, store)"
  using assignTaskToProject_spec [OF ids_distinct_store valid_T2 valid_T1]
    assignTaskToProject_spec [OF ids_distinct_store valid_T2 valid_P1]
    assignTaskToProject_spec [OF ids_distinct_store valid_T1 valid_P1]
    assignTaskToProject_spec [OF ids_distinct_store valid_P1 valid_P1]
    ids_distinct_store valid_T1 valid_T2 valid_P1
  by (simp add: sample_simps)

section \<open>Name uniqueness\<close>

lemma names_unique_createTask:
  "names_unique db \<Longrightarrow> names_unique (snd (createTask db now1 now2 oid taskData))"
  by (auto simp: createTask_cases names_unique_def)

lemma names_unique_createProject:
  "names_unique db \<Longrightarrow> names_unique (snd (createProject db now1 now2 oid projectData))"
  by (auto simp: createProject_cases names_unique_def)

lemma names_unique_updateTask:
  assumes "names_unique db"
  shows "names_unique (snd (updateTask db id' p))"
proof (cases "UpdateTaskDto.name p")
  case None
  then have "map (\<lambda>x. Task.name (snd x))
       (fst (updateOne (tasks db) (by_id (ObjectId_new id')) (set_Task (cleanedData p)))) =
     map (\<lambda>x. Task.name (snd x)) (tasks db)"
    by (intro updateOne_keeps) (simp add: name_set_Task)
  with assms show ?thesis
    by (simp add: updateTask_cases names_unique_def)
next
  case (Some n)
  show ?thesis
  proof (cases "\<exists>x\<in>set (tasks db). Task.name (snd x) = n")
    case True
    with Some assms show ?thesis
      by (auto simp: updateTask_cases)
  next
    case False
    from assms have "distinct (map (\<lambda>x. Task.name (snd x)) (tasks db))"
      by (simp add: names_unique_def)
    with False have "distinct (map (\<lambda>x. Task.name (snd x))
       (fst (updateOne (tasks db) (by_id (ObjectId_new id')) (set_Task (cleanedData p)))))"
      by (intro updateOne_fresh [where n = n]) (simp_all add: name_set_Task Some)
    with assms show ?thesis
      by (simp add: updateTask_cases names_unique_def)
  qed
qed

lemma names_unique_updateProject:
  assumes "names_unique db"
  shows "names_unique (snd (updateProject db id' q))"
proof (cases "UpdateProjectDto.name q")
  case None
  then have "map (\<lambda>x. Project.name (snd x))
       (fst (updateOne (projects db) (by_id (ObjectId_new id')) (set_Project (cleanedUpdateData q)))) =
     map (\<lambda>x. Project.name (snd x)) (projects db)"
    by (intro updateOne_keeps) (simp add: name_set_Project)
  with assms show ?thesis
    by (simp add: updateProject_cases names_unique_def)
next
  case (Some n)
  show ?thesis
  proof (cases "\<exists>x\<in>set (projects db). Project.name (snd x) = n")
    case True
    with Some assms show ?thesis
      by (auto simp: updateProject_cases)
  next
    case False
    from assms have "distinct (map (\<lambda>x. Project.name (snd x)) (projects db))"
      by (simp add: names_unique_def)
    with False have "distinct (map (\<lambda>x. Project.name (snd x))
       (fst (updateOne (projects db) (by_id (ObjectId_new id'))
              (set_Project (cleanedUpdateData q)))))"
      by (intro updateOne_fresh [where n = n]) (simp_all add: name_set_Project Some)
    with assms show ?thesis
      by (simp add: updateProject_cases names_unique_def)
  qed
qed

lemma names_unique_updateTaskStatus:
  assumes "names_unique db"
  shows "names_unique (snd (updateTaskStatus db now1 now2 id' st))"
proof -
  have keep: "map (\<lambda>x. Task.name (snd x)) (fst (updateOne (tasks db) flt (set_Task u))) =
        map (\<lambda>x. Task.name (snd x)) (tasks db)" if "PartialTask.name u = None" for u flt
    using that by (intro updateOne_keeps) (simp add: set_Task_def)
  from assms show ?thesis
    by (simp add: updateTaskStatus_def Let_def names_unique_def case_prod_beta keep)
qed

lemma names_unique_assignTaskToProject:
  assumes "names_unique db"
  shows "names_unique (snd (assignTaskToProject db taskId' projectId'))"
proof -
  have keep: "map (\<lambda>x. Task.name (snd x))
          (fst (updateOne (tasks db) flt (\<lambda>t. t\<lparr>Task.projectId := Some i\<rparr>))) =
        map (\<lambda>x. Task.name (snd x)) (tasks db)" for i flt
    by (intro updateOne_keeps) simp
  from assms show ?thesis
    by (simp add: assignTaskToProject_def Let_def names_unique_def case_prod_beta keep
        split: option.splits)
qed

lemma names_unique_deleteTask:
  "names_unique db \<Longrightarrow> names_unique (snd (deleteTask db id'))"
  by (simp add: deleteTask_def Let_def names_unique_def case_prod_beta deleteOne_distinct)

lemma names_unique_deleteProject:
  assumes "names_unique db"
  shows "names_unique (snd (deleteProject db id'))"
proof -
  have keep: "map (\<lambda>x. Task.name (snd x)) (updateMany (tasks db) flt unset_projectId) =
        map (\<lambda>x. Task.name (snd x)) (tasks db)" for flt
    by (simp add: updateMany_def unset_projectId_def comp_def if_distrib [of snd]
        if_distrib [of Task.name] cong: if_cong)
  from assms show ?thesis
    by (simp add: deleteProject_def Let_def names_unique_def case_prod_beta keep
        deleteOne_distinct)
qed

lemma names_unique_exec: "names_unique db \<Longrightarrow> names_unique (exec db op)"
  by (cases op)
    (simp_all add: names_unique_createTask names_unique_createProject names_unique_updateTask
      names_unique_updateProject names_unique_updateTaskStatus names_unique_assignTaskToProject
      names_unique_deleteTask names_unique_deleteProject)

lemma names_unique_foldl: "names_unique db \<Longrightarrow> names_unique (foldl exec db ops)"
  by (induction ops arbitrary: db) (simp_all add: names_unique_exec)

text \<open>
  C7. Name uniqueness is an invariant of the services run one after another: from a
  store whose task names are pairwise distinct and whose project names are pairwise
  distinct, the store after any one of the eight operations, and after any sequence of
  them, has pairwise distinct task names and pairwise distinct project names. In
  particular, after a \<open>createTask\<close> (\<open>createProject\<close>) that succeeded, a second one
  with the same name fails with \<open>Conflict\<close>, leaves the store as it was, and the store
  holds exactly one task (project) of that name.
\<close>

theorem name_uniqueness_invariant:
  assumes "names_unique db"
  shows
  "names_unique (exec db op) \<and>
   names_unique (foldl exec db ops) \<and>
   (fst (createTask db now1 now2 oid taskData) = Inr i \<and>
    CreateTaskDto.name taskData' = CreateTaskDto.name taskData \<longrightarrow>
      createTask (snd (createTask db now1 now2 oid taskData)) now3 now4 oid' taskData' =
        (Inl Conflict, snd (createTask db now1 now2 oid taskData)) \<and>
      length (filter (\<lambda>x. Task.name (snd x) = CreateTaskDto.name taskData)
                (tasks (snd (createTask db now1 now2 oid taskData)))) = 1) \<and>
   (fst (createProject db now1 now2 oid projectData) = Inr i \<and>
    CreateProjectDto.name projectData' = CreateProjectDto.name projectData \<longrightarrow>
      createProject (snd (createProject db now1 now2 oid projectData)) now3 now4 oid' projectData' =
        (Inl Conflict, snd (createProject db now1 now2 oid projectData)) \<and>
      length (filter (\<lambda>x. Project.name (snd x) = CreateProjectDto.name projectData)
                (projects (snd (createProject db now1 now2 oid projectData)))) = 1)"
proof -
  have absent: "\<not> (\<exists>x\<in>set coll. g x = n) \<Longrightarrow> filter (\<lambda>x. g x = n) coll = []"
    for coll :: "'a list" and g :: "'a \<Rightarrow> string" and n
    by (induction coll) auto
  have t: "fst (createTask db now1 now2 oid taskData) = Inr i \<Longrightarrow>
      CreateTaskDto.name taskData' = CreateTaskDto.name taskData \<Longrightarrow>
      createTask (snd (createTask db now1 now2 oid taskData)) now3 now4 oid' taskData' =
        (Inl Conflict, snd (createTask db now1 now2 oid taskData)) \<and>
      length (filter (\<lambda>x. Task.name (snd x) = CreateTaskDto.name taskData)
                (tasks (snd (createTask db now1 now2 oid taskData)))) = 1"
    using absent [of "tasks db" "\<lambda>x. Task.name (snd x)" "CreateTaskDto.name taskData"]
    by (simp add: createTask_cases [of db] split: if_splits) (simp add: createTask_cases)
  have p: "fst (createProject db now1 now2 oid projectData) = Inr i \<Longrightarrow>
      CreateProjectDto.name projectData' = CreateProjectDto.name projectData \<Longrightarrow>
      createProject (snd (createProject db now1 now2 oid projectData)) now3 now4 oid' projectData' =
        (Inl Conflict, snd (createProject db now1 now2 oid projectData)) \<and>
      length (filter (\<lambda>x. Project.name (snd x) = CreateProjectDto.name projectData)
                (projects (snd (createProject db now1 now2 oid projectData)))) = 1"
    using absent [of "projects db" "\<lambda>x. Project.name (snd x)" "CreateProjectDto.name projectData"]
    by (simp add: createProject_cases [of db] split: if_splits) (simp add: createProject_cases)
  from assms t p show ?thesis
    by (simp add: names_unique_exec names_unique_foldl)
qed

theorem name_uniqueness_invariant_witness:
  "names_unique store \<and>
   names_unique (exec store (UpdateTask T2 (rename_task ''Audit''))) \<and>
   names_unique (foldl exec store
     [CreateTask 1000 1001 T3 build, UpdateTask T3 (rename_task ''Design''),
      CreateProject 1002 1003 P2 beta, DeleteProject P1]) \<and>
   fst (createTask store 1000 1001 T3 build) = Inr T3 \<and>
   createTask (snd (createTask store 1000 1001 T3 build)) 2000 2001 T4 build =
     (Inl Conflict, snd (createTask store 1000 1001 T3 build)) \<and>
   length (filter (\<lambda>x. Task.name (snd x) = CreateTaskDto.name build)
             (tasks (snd (createTask store 1000 1001 T3 build)))) = 1 \<and>
   fst (createProject store 1000 1001 P2 beta) = Inr P2 \<and>
   createProject (snd (createProject store 1000 1001 P2 beta)) 2000 2001 P3 beta =
     (Inl Conflict, snd (createProject store 1000 1001 P2 beta)) \<and>
   length (filter (\<lambda>x. Project.name (snd x) = CreateProjectDto.name beta)
             (projects (snd (createProject store 1000 1001 P2 beta)))) = 1"
proof -
  have u: "names_unique store"
    by (simp add: names_unique_def sample_defs)
  have t: "fst (createTask store 1000 1001 T3 build) = Inr T3"
    by (simp add: createTask_cases sample_defs T3_def build_def)
  have p: "fst (createProject store 1000 1001 P2 beta) = Inr P2"
    by (simp add: createProject_cases sample_defs P2_def beta_def)
  note inv = name_uniqueness_invariant [OF u, where ?now1.0 = 1000 and ?now2.0 = 1001
      and ?now3.0 = 2000 and ?now4.0 = 2001 and taskData = build and taskData' = build
      and projectData = beta and projectData' = beta]
  from inv [where op = "UpdateTask T2 (rename_task ''Audit'')"
      and ops = "[CreateTask 1000 1001 T3 build, UpdateTask T3 (rename_task ''Design''),
        CreateProject 1002 1003 P2 beta, DeleteProject P1]" and oid = T3 and i = T3 and oid' = T4] t
  have a: "names_unique (exec store (UpdateTask T2 (rename_task ''Audit''))) \<and>
     names_unique (foldl exec store
       [CreateTask 1000 1001 T3 build, UpdateTask T3 (rename_task ''Design''),
        CreateProject 1002 1003 P2 beta, DeleteProject P1]) \<and>
     createTask (snd (createTask store 1000 1001 T3 build)) 2000 2001 T4 build =
       (Inl Conflict, snd (createTask store 1000 1001 T3 build)) \<and>
     length (filter (\<lambda>x. Task.name (snd x) = CreateTaskDto.name build)
               (tasks (snd (createTask store 1000 1001 T3 build)))) = 1"
    by simp
  from inv [where op = "DeleteProject P1" and ops = "[]" and oid = P2 and i = P2 and oid' = P3] p
  have b: "createProject (snd (createProject store 1000 1001 P2 beta)) 2000 2001 P3 beta =
       (Inl Conflict, snd (createProject store 1000 1001 P2 beta)) \<and>
     length (filter (\<lambda>x. Project.name (snd x) = CreateProjectDto.name beta)
               (projects (snd (createProject store 1000 1001 P2 beta)))) = 1"
    by simp
  from u t p a b show ?thesis
    by simp
qed

section \<open>Timestamps and identifier of a created document\<close>

text \<open>
  C8, as the services have it. For every \<open>createTask\<close> and \<open>createProject\<close> that
  succeeds, the identifier returned was held by no document of the collection before,
  and the one document appended under it has \<open>createdAt\<close> the first clock reading of
  the call and \<open>updatedAt\<close> the second, so that the two are equal exactly when the
  clock gave the same value twice.
\<close>

theorem create_stamps_and_identifier:
  "(fst (createTask db now1 now2 oid taskData) = Inr i \<longrightarrow>
      i \<notin> fst ` set (tasks db) \<and>
      (\<exists>t. tasks (snd (createTask db now1 now2 oid taskData)) = tasks db @ [(i, t)] \<and>
           Task.createdAt t = now1 \<and> Task.updatedAt t = now2 \<and>
           (Task.createdAt t = Task.updatedAt t \<longleftrightarrow> now1 = now2))) \<and>
   (fst (createProject db now1 now2 oid projectData) = Inr j \<longrightarrow>
      j \<notin> fst ` set (projects db) \<and>
      (\<exists>p. projects (snd (createProject db now1 now2 oid projectData)) = projects db @ [(j, p)] \<and>
           Project.createdAt p = now1 \<and> Project.updatedAt p = now2 \<and>
           (Project.createdAt p = Project.updatedAt p \<longleftrightarrow> now1 = now2)))"
  by (auto simp: createTask_cases createProject_cases split: if_splits)

theorem create_stamps_and_identifier_witness:
  "fst (createTask store 1000 1001 T3 build) = Inr T3 \<and>
   T3 \<notin> fst ` set (tasks store) \<and>
   (\<exists>t. tasks (snd (createTask store 1000 1001 T3 build)) = tasks store @ [(T3, t)] \<and>
        Task.createdAt t = 1000 \<and> Task.updatedAt t = 1001 \<and>
        (Task.createdAt t = Task.updatedAt t \<longleftrightarrow> (1000::int) = 1001)) \<and>
   fst (createProject store 1000 1000 P2 beta) = Inr P2 \<and>
   P2 \<notin> fst ` set (projects store) \<and>
   (\<exists>p. projects (snd (createProject store 1000 1000 P2 beta)) = projects store @ [(P2, p)] \<and>
        Project.createdAt p = 1000 \<and> Project.updatedAt p = 1000 \<and>
        (Project.createdAt p = Project.updatedAt p \<longleftrightarrow> (1000::int) = 1000))"
proof -
  have t: "fst (createTask store 1000 1001 T3 build) = Inr T3"
    by (simp add: createTask_cases sample_defs T3_def build_def)
  have p: "fst (createProject store 1000 1000 P2 beta) = Inr P2"
    by (simp add: createProject_cases sample_defs P2_def beta_def)
  from create_stamps_and_identifier [of store 1000 1001 T3 build T3] t
    create_stamps_and_identifier [of store 1000 1000 P2 _ _ beta P2] p
  show ?thesis
    by blast
qed

text \<open>
  The claim as stated, that \<open>createdAt\<close> equals \<open>updatedAt\<close> on every created
  document, fails when the clock ticks between the two \<^verbatim>\<open>new Date()\<close> of the
  object literal: with readings 1000 and 1001 the task is stored with \<open>createdAt\<close>
  1000 and \<open>updatedAt\<close> 1001.
\<close>

theorem create_stamps_counterexample:
  "fst (createTask store 1000 1001 T3 build) = Inr T3 \<and>
   tasks (snd (createTask store 1000 1001 T3 build)) =
     [(T1, design), (T2, review),
      (T3, \<lparr>Task.name = ''Build'', Task.status = ''TODO'', Task.startDate = 130,
            Task.dueDate = 140, Task.createdAt = 1000, Task.updatedAt = 1001,
            Task.doneDate = None, Task.projectId = None\<rparr>)] \<and>
   Task.createdAt (snd (last (tasks (snd (createTask store 1000 1001 T3 build))))) \<noteq>
   Task.updatedAt (snd (last (tasks (snd (createTask store 1000 1001 T3 build)))))"
  by (simp add: createTask_cases sample_defs T3_def build_def)

section \<open>Searching tasks by name\<close>

lemma parse_regex_literal:
  "\<forall>c\<in>set s. c \<notin> set metachars \<Longrightarrow> parse_regex s = Some (map Lit s)"
  by (induction s) (auto simp: metachars_def)

lemma matches_here_literal:
  "matches_here (map Lit s) n = startsWith (map toLowerCase n) (map toLowerCase s)"
proof (induction s arbitrary: n)
  case Nil
  then show ?case by simp
next
  case (Cons c cs)
  then show ?case by (cases n) auto
qed

lemma regex_search_literal:
  "regex_search (map Lit s) n = containsList (map toLowerCase n) (map toLowerCase s)"
proof (induction n)
  case Nil
  then show ?case by (cases s) simp_all
next
  case (Cons x xs)
  then show ?case
    using matches_here_literal [of s "x # xs"] by simp
qed

lemma startsWith_iff: "startsWith xs ys \<longleftrightarrow> (\<exists>bs. xs = ys @ bs)"
  by (induction xs ys rule: startsWith.induct) auto

lemma containsList_iff: "containsList xs ys \<longleftrightarrow> (\<exists>as bs. xs = as @ ys @ bs)"
proof (induction xs)
  case Nil
  then show ?case by auto
next
  case (Cons x xs)
  show ?case
  proof
    assume "containsList (x # xs) ys"
    then consider "startsWith (x # xs) ys" | "containsList xs ys" by auto
    then show "\<exists>as bs. x # xs = as @ ys @ bs"
    proof cases
      case 1
      then obtain bs where "x # xs = ys @ bs" by (auto simp: startsWith_iff)
      then have "x # xs = [] @ ys @ bs" by simp
      then show ?thesis by blast
    next
      case 2
      with Cons obtain as bs where "xs = as @ ys @ bs" by auto
      then have "x # xs = (x # as) @ ys @ bs" by simp
      then show ?thesis by blast
    qed
  next
    assume "\<exists>as bs. x # xs = as @ ys @ bs"
    then obtain as bs where e: "x # xs = as @ ys @ bs" by auto
    show "containsList (x # xs) ys"
    proof (cases as)
      case Nil
      with e have "startsWith (x # xs) ys" by (auto simp: startsWith_iff)
      then show ?thesis by simp
    next
      case (Cons a as')
      with e have "xs = as' @ ys @ bs" by simp
      with Cons.IH have "containsList xs ys" by blast
      then show ?thesis by simp
    qed
  qed
qed

lemma containsIgnoreCase_iff:
  "containsIgnoreCase n s \<longleftrightarrow>
     (\<exists>as bs. map toLowerCase n = as @ map toLowerCase s @ bs)"
  by (simp add: containsIgnoreCase_def containsList_iff)

text \<open>
  C9, as the service has it. The query is a regular expression. For every query made
  of ordinary characters only (none of the metacharacters), \<open>searchTasks\<close> returns
  exactly the tasks whose name contains the query as a substring when the case of the
  letters A to Z is ignored, all of them, in store order.
\<close>

theorem searchTasks_literal:
  assumes "\<forall>c\<in>set s. c \<notin> set metachars"
  shows "searchTasks db s =
     Some (filter (\<lambda>x. containsIgnoreCase (Task.name (snd x)) s) (tasks db))"
  using assms
  by (simp add: searchTasks_def parse_regex_literal regex_search_literal find_docs_def
      containsIgnoreCase_def)

theorem searchTasks_literal_witness:
  "searchTasks store ''SIG'' = Some [(T1, design)] \<and>
   searchTasks store ''e'' = Some [(T1, design), (T2, review)] \<and>
   searchTasks store ''x'' = Some []"
  using searchTasks_literal [of "''SIG''" store] searchTasks_literal [of "''e''" store]
    searchTasks_literal [of "''x''" store]
  by (simp add: metachars_def containsIgnoreCase_def toLowerCase_def store_def design_def
      review_def)

text \<open>
  The claim as stated, for every query string, fails on a query with a metacharacter:
  the query of one dot returns both sample tasks, and neither name contains a dot.
\<close>

theorem searchTasks_counterexample:
  "searchTasks store ''.'' = Some [(T1, design), (T2, review)] \<and>
   \<not> containsIgnoreCase (Task.name design) ''.'' \<and>
   \<not> containsIgnoreCase (Task.name review) ''.''"
  by (simp add: searchTasks_def find_docs_def containsIgnoreCase_def toLowerCase_def store_def
      design_def review_def)

section \<open>Self-collision on update\<close>

text \<open>
  C10. The check does not exclude the document being updated: for every stored project
  (task) and every patch whose name is that document's own current name, updating the
  document under its own identifier fails with \<open>Conflict\<close> and leaves the store, and
  so the document, unchanged.
\<close>

theorem update_self_collision:
  assumes "ObjectId_isValid id'"
  shows
  "((ObjectId_new id', P) \<in> set (projects db) \<and> UpdateProjectDto.name q = Some (Project.name P) \<longrightarrow>
      updateProject db id' q = (Inl Conflict, db)) \<and>
   ((ObjectId_new id', t) \<in> set (tasks db) \<and> UpdateTaskDto.name p = Some (Task.name t) \<longrightarrow>
      updateTask db id' p = (Inl Conflict, db))"
  using assms by (force simp: updateTask_cases updateProject_cases)

theorem update_self_collision_witness:
  "ObjectId_isValid P1 \<and> (ObjectId_new P1, alpha) \<in> set (projects store) \<and>
   UpdateProjectDto.name (rename_project ''Alpha'') = Some (Project.name alpha) \<and>
   updateProject store P1 (rename_project ''Alpha'') = (Inl Conflict, store) \<and>
   ObjectId_isValid T1 \<and> (ObjectId_new T1, design) \<in> set (tasks store) \<and>
   UpdateTaskDto.name (rename_task ''Design'') = Some (Task.name design) \<and>
   updateTask store T1 (rename_task ''Design'') = (Inl Conflict, store)"
proof -
  have p: "(ObjectId_new P1, alpha) \<in> set (projects store)"
    by (simp add: new_P1 store_def)
  have pn: "UpdateProjectDto.name (rename_project ''Alpha'') = Some (Project.name alpha)"
    by (simp add: rename_project_def alpha_def)
  have t: "(ObjectId_new T1, design) \<in> set (tasks store)"
    by (simp add: new_T1 store_def)
  have tn: "UpdateTaskDto.name (rename_task ''Design'') = Some (Task.name design)"
    by (simp add: rename_task_def design_def)
  from update_self_collision [OF valid_P1, of alpha store "rename_project ''Alpha''"] p pn
  have 1: "updateProject store P1 (rename_project ''Alpha'') = (Inl Conflict, store)"
    by blast
  from update_self_collision [OF valid_T1, of _ store _ design "rename_task ''Design''"] t tn
  have 2: "updateTask store T1 (rename_task ''Design'') = (Inl Conflict, store)"
    by blast
  from p pn t tn 1 2 valid_P1 valid_T1 show ?thesis
    by simp
qed

end
